theory Spec2Isabelle
  imports Main "HOL-Library.Word"
begin

unbundle bit_operations_syntax

section \<open>The MDS GATT profile of main/gatts\_demo.c\<close>

text \<open>
  The profile is one event handler, \<^verbatim>\<open>gatts_profile_event_handler\<close>, run by the BLE host
  stack with one event at a time, plus the helper \<^verbatim>\<open>send_chunk_notification\<close>. Both work on
  file-level globals. The handler is modelled as a function from the globals and one event
  to the new globals and the list of calls made to the outside (the host stack, the
  telemetry packetizer, the error log), in program order. The callback registered with the
  stack, \<^verbatim>\<open>gatts_event_handler\<close>, passes every event on to this handler unchanged; what it
  stores on registration (the interface, in \<^verbatim>\<open>gl_profile_tab\<close>) is not read here.
\<close>

subsection \<open>Machine types and header constants\<close>

type_synonym u8 = "8 word"
type_synonym u16 = "16 word"
type_synonym u32 = "32 word"

text \<open>\<^verbatim>\<open>size_t\<close> on the ESP32 targets is 32 bits wide and unsigned.\<close>

type_synonym size_t = "32 word"

type_synonym esp_gatt_if_t = u8
type_synonym esp_gatt_status_t = u8
type_synonym esp_err_t = int

text \<open>
  Constants of the ESP-IDF headers (\<^verbatim>\<open>esp_err.h\<close>, \<^verbatim>\<open>esp_gatt_defs.h\<close>, \<^verbatim>\<open>esp_bt_defs.h\<close>), which
  the source includes and which are not part of the repository.
\<close>

definition ESP_OK :: esp_err_t where
  "ESP_OK = 0"

definition ESP_GATT_OK :: esp_gatt_status_t where
  "ESP_GATT_OK = 0x00"

definition ESP_GATT_INVALID_HANDLE :: esp_gatt_status_t where
  "ESP_GATT_INVALID_HANDLE = 0x01"

definition ESP_GATT_INVALID_PDU :: esp_gatt_status_t where
  "ESP_GATT_INVALID_PDU = 0x04"

definition ESP_GATT_UUID_CHAR_CLIENT_CONFIG :: u16 where
  "ESP_GATT_UUID_CHAR_CLIENT_CONFIG = 0x2902"

definition ESP_UUID_LEN_16 :: u16 where
  "ESP_UUID_LEN_16 = 2"

definition ESP_UUID_LEN_128 :: u16 where
  "ESP_UUID_LEN_128 = 16"

definition ESP_GATT_PERM_READ :: u16 where
  "ESP_GATT_PERM_READ = push_bit 0 1"

definition ESP_GATT_PERM_WRITE :: u16 where
  "ESP_GATT_PERM_WRITE = push_bit 4 1"

definition ESP_GATT_CHAR_PROP_BIT_READ :: u8 where
  "ESP_GATT_CHAR_PROP_BIT_READ = push_bit 1 1"

definition ESP_GATT_CHAR_PROP_BIT_WRITE :: u8 where
  "ESP_GATT_CHAR_PROP_BIT_WRITE = push_bit 3 1"

definition ESP_GATT_CHAR_PROP_BIT_NOTIFY :: u8 where
  "ESP_GATT_CHAR_PROP_BIT_NOTIFY = push_bit 4 1"

text \<open>The defines of the source file itself.\<close>

definition MDS_NUM_CHARACTERISTICS :: nat where
  "MDS_NUM_CHARACTERISTICS = 5"

definition MDS_NUM_DESCRIPTORS :: nat where
  "MDS_NUM_DESCRIPTORS = 1"

definition MDS_NUM_HANDLES :: nat where
  "MDS_NUM_HANDLES = 1 + (2 * MDS_NUM_CHARACTERISTICS) + MDS_NUM_DESCRIPTORS"

definition MDS_ERR_INVALID_LENGTH :: esp_gatt_status_t where
  "MDS_ERR_INVALID_LENGTH = 0x80"

definition MDS_ERR_CLIENT_ALREADY_SUBSCRIBED :: esp_gatt_status_t where
  "MDS_ERR_CLIENT_ALREADY_SUBSCRIBED = 0x81"

definition MDS_ERR_CLIENT_NOT_SUBSCRIBED :: esp_gatt_status_t where
  "MDS_ERR_CLIENT_NOT_SUBSCRIBED = 0x82"

subsection \<open>The globals\<close>

text \<open>The anonymous struct \<^verbatim>\<open>mds_state\<close> and its initialiser.\<close>

record mds_state_t =
  subscribed :: bool
  conn_id :: u16
  export_mode :: u8
  chunk_sequence :: u8
  mtu :: u16
  congested :: bool

definition mds_state_init :: mds_state_t where
  "mds_state_init =
     \<lparr>subscribed = False, conn_id = 0xFFFF, export_mode = 0, chunk_sequence = 0,
      mtu = 23, congested = False\<rparr>"

text \<open>The anonymous struct \<^verbatim>\<open>mds_handles\<close>, initialised to all zeros.\<close>

record mds_handles_t =
  supported_features_handle :: u16
  device_id_handle :: u16
  data_uri_handle :: u16
  auth_handle :: u16
  data_export_handle :: u16
  data_export_cccd_handle :: u16

definition mds_handles_init :: mds_handles_t where
  "mds_handles_init =
     \<lparr>supported_features_handle = 0, device_id_handle = 0, data_uri_handle = 0,
      auth_handle = 0, data_export_handle = 0, data_export_cccd_handle = 0\<rparr>"

text \<open>
  A UUID as the stack's \<^verbatim>\<open>esp_bt_uuid_t\<close>: its length tag and the bytes of the union, least
  significant byte first.
\<close>

record esp_bt_uuid_t =
  uuid_len :: u16
  uuid_bytes :: "u8 list"

text \<open>The member \<^verbatim>\<open>service_id\<close> of \<^verbatim>\<open>gl_profile_tab[PROFILE_APP_ID]\<close>.\<close>

record esp_gatt_srvc_id_t =
  is_primary :: bool
  inst_id :: u8
  srvc_uuid :: esp_bt_uuid_t

text \<open>
  All file-level variables the handler reads or writes. \<^verbatim>\<open>mds_data_uri\<close> is filled in by
  \<^verbatim>\<open>update_data_uri\<close> before the first event and only read afterwards.
\<close>

record globals =
  mds_state :: mds_state_t
  mds_handles :: mds_handles_t
  profile_handle :: u16
  service_id :: esp_gatt_srvc_id_t
  mds_data_uri :: string

definition globals_init :: "string \<Rightarrow> globals" where
  "globals_init uri =
     \<lparr>mds_state = mds_state_init, mds_handles = mds_handles_init, profile_handle = 0,
      service_id = \<lparr>is_primary = False, inst_id = 0,
                    srvc_uuid = \<lparr>uuid_len = 0, uuid_bytes = replicate 16 0\<rparr>\<rparr>,
      mds_data_uri = uri\<rparr>"

definition adv_service_uuid128 :: "u8 list" where
  "adv_service_uuid128 =
     [0x36, 0x84, 0xbd, 0x4e, 0x2f, 0x72, 0x71, 0xa3, 0x07, 0x40, 0xa5, 0xf6, 0x00, 0x00, 0x22, 0x54]"

text \<open>
  The 128-bit identifiers \<^verbatim>\<open>5422000n-f6a5-4007-a371-722f4ebd8436\<close> written out in the
  handler: they differ from the service's in byte 12 only.
\<close>

definition mds_char_uuid :: "u8 \<Rightarrow> esp_bt_uuid_t" where
  "mds_char_uuid n =
     \<lparr>uuid_len = ESP_UUID_LEN_128,
      uuid_bytes =
        [0x36, 0x84, 0xbd, 0x4e, 0x2f, 0x72, 0x71, 0xa3, 0x07, 0x40, 0xa5, 0xf6, n, 0x00, 0x22, 0x54]\<rparr>"

definition mds_supported_features :: "u8 list" where
  "mds_supported_features = [0x00]"

definition mds_device_id :: string where
  "mds_device_id = ''ESP32-TEST-DEVICE''"

definition mds_auth :: string where
  "mds_auth = ''Memfault-Project-Key:kWRfBKMZ9T5Mtw3yrzZBRIIGoTRBpr8V''"

subsection \<open>Events, outbound calls, and what the outside answers\<close>

text \<open>
  An event is the stack's event code together with the members of its parameter union that
  the handler reads. For a characteristic-added event that is byte 12 of the attribute's
  128-bit identifier (\<^verbatim>\<open>char_uuid.uuid.uuid128[12]\<close>), for a descriptor-added event the 16-bit
  identifier. A write carries its payload; \<^verbatim>\<open>param->write.len\<close> is the payload's length.
  Every event code the switch does not list is \<open>ESP_GATTS_OTHER_EVT\<close>.
\<close>

datatype esp_gatts_cb_event_t =
    ESP_GATTS_REG_EVT esp_gatt_status_t u16
  | ESP_GATTS_CREATE_EVT esp_gatt_status_t u16
  | ESP_GATTS_ADD_CHAR_EVT esp_gatt_status_t u16 u16 u8
  | ESP_GATTS_ADD_CHAR_DESCR_EVT esp_gatt_status_t u16 u16 u16
  | ESP_GATTS_READ_EVT u16 u32 u16
  | ESP_GATTS_WRITE_EVT u16 u32 u16 "u8 list"
  | ESP_GATTS_CONF_EVT
  | ESP_GATTS_MTU_EVT u16
  | ESP_GATTS_DISCONNECT_EVT u8
  | ESP_GATTS_START_EVT esp_gatt_status_t
  | ESP_GATTS_CONGEST_EVT bool
  | ESP_GATTS_OTHER_EVT

text \<open>The response body of a read: \<^verbatim>\<open>rsp.attr_value\<close> with its handle, length and bytes.\<close>

record esp_gatt_rsp_t =
  rsp_handle :: u16
  rsp_len :: u16
  rsp_value :: "u8 list"

text \<open>
  The calls the handler makes, with their arguments in the order of the C prototypes.
  \<open>Gatts_send_indicate\<close> is \<^verbatim>\<open>esp_ble_gatts_send_indicate(gatts_if, conn_id, attr_handle,
  value_len, value, need_confirm)\<close>: the stack transmits the first \<open>value_len\<close> bytes of the
  buffer. Of the log calls only the error level is kept; the information level changes
  nothing the claims speak of.
\<close>

datatype action =
    Gatts_create_service esp_gatt_if_t esp_gatt_srvc_id_t nat
  | Gatts_add_char u16 esp_bt_uuid_t u16 u8
  | Gatts_add_char_descr u16 esp_bt_uuid_t u16
  | Gatts_start_service u16
  | Gatts_send_response esp_gatt_if_t u16 u32 esp_gatt_status_t "esp_gatt_rsp_t option"
  | Gatts_send_indicate esp_gatt_if_t u16 u16 u16 "u8 list" bool
  | Gap_start_advertising
  | Packetizer_abort
  | ESP_LOGE string

text \<open>
  What the outside answers during the handling of one event. \<open>malloc_ok n\<close> says whether
  \<^verbatim>\<open>malloc(n)\<close> returns a pointer other than \<^verbatim>\<open>NULL\<close>. \<open>packetizer_get_chunk cap\<close> is \<^verbatim>\<open>memfault_packetizer_get_chunk\<close> called with a
  buffer of \<open>cap\<close> bytes: \<open>None\<close> when it returns false, \<open>Some data\<close> when it returns true
  having written \<open>data\<close> and set the length to \<open>length data\<close>. \<open>send_indicate_ret\<close> is the
  value \<^verbatim>\<open>esp_ble_gatts_send_indicate\<close> returns. \<^verbatim>\<open>send_chunk_notification\<close> runs at most
  once per event, so each answer is used at most once.
\<close>

record env =
  malloc_ok :: "nat \<Rightarrow> bool"
  packetizer_get_chunk :: "nat \<Rightarrow> u8 list option"
  send_indicate_ret :: esp_err_t

subsection \<open>The chunk frame\<close>

text \<open>
  \<^verbatim>\<open>mds_data_export_payload_t\<close> is packed: one byte holding the bit-fields
  \<^verbatim>\<open>chunk_number:5\<close> (the low five bits) and \<^verbatim>\<open>rfu:3\<close> (the high three), then the data.
  Storing into a bit-field keeps the low bits of the value stored.
\<close>

definition payload_header :: "u8 \<Rightarrow> u8 \<Rightarrow> u8" where
  "payload_header chunk_number rfu = (chunk_number AND 0x1F) OR push_bit 5 (rfu AND 0x07)"

subsection \<open>send\_chunk\_notification\<close>

text \<open>The buffer capacity left for chunk data: \<^verbatim>\<open>size_t max_chunk_size = mtu_size - 4\<close>. The
  16-bit \<open>mtu_size\<close> is promoted to \<^verbatim>\<open>int\<close>, 4 is subtracted, and the result is converted to
  the unsigned \<^verbatim>\<open>size_t\<close>, so below 4 it wraps around.\<close>

definition max_chunk_size :: "u16 \<Rightarrow> size_t" where
  "max_chunk_size mtu_size = ucast mtu_size - 4"

definition send_chunk_notification :: "env \<Rightarrow> esp_gatt_if_t \<Rightarrow> globals \<Rightarrow> globals \<times> action list" where
  "send_chunk_notification e gatts_if g =
     (if \<not> subscribed (mds_state g) \<or> export_mode (mds_state g) \<noteq> 0x01 \<or> congested (mds_state g)
      then (g, [])
      else
        let mtu_size = mtu (mds_state g);
            total_len = (1 + max_chunk_size mtu_size :: size_t)
        in
          if \<not> malloc_ok e (unat total_len)
          then (g, [ESP_LOGE ''Failed to allocate notification buffer''])
          else
            let header = payload_header (chunk_sequence (mds_state g)) 0 in
            (case packetizer_get_chunk e (unat (max_chunk_size mtu_size)) of
               None \<Rightarrow> (g\<lparr>mds_state := (mds_state g)\<lparr>export_mode := 0x00\<rparr>\<rparr>, [])
             | Some data \<Rightarrow>
                 let chunk_size = (of_nat (length data) :: size_t);
                     total_len = (1 + chunk_size :: size_t);
                     notify = Gatts_send_indicate gatts_if (conn_id (mds_state g))
                                (data_export_handle (mds_handles g)) (ucast total_len)
                                (header # data) False
                 in
                   if send_indicate_ret e \<noteq> ESP_OK
                   then (g, [notify, ESP_LOGE ''Failed to send notification: %d'', Packetizer_abort])
                   else (g\<lparr>mds_state := (mds_state g)
                            \<lparr>chunk_sequence := (chunk_sequence (mds_state g) + 1) AND 0x1F\<rparr>\<rparr>,
                         [notify])))"

subsection \<open>gatts\_profile\_event\_handler\<close>

text \<open>The two chains of \<^verbatim>\<open>if\<close> in the characteristic-added case: record the handle, then
  ask for the next attribute.\<close>

definition record_char_handle :: "u8 \<Rightarrow> u16 \<Rightarrow> mds_handles_t \<Rightarrow> mds_handles_t" where
  "record_char_handle b attr_handle h =
     (if b = 0x01 then h\<lparr>supported_features_handle := attr_handle\<rparr>
      else if b = 0x02 then h\<lparr>device_id_handle := attr_handle\<rparr>
      else if b = 0x03 then h\<lparr>data_uri_handle := attr_handle\<rparr>
      else if b = 0x04 then h\<lparr>auth_handle := attr_handle\<rparr>
      else if b = 0x05 then h\<lparr>data_export_handle := attr_handle\<rparr>
      else h)"

definition add_next_attribute :: "u8 \<Rightarrow> u16 \<Rightarrow> action list" where
  "add_next_attribute b ph =
     (if b = 0x01 then
        [Gatts_add_char ph (mds_char_uuid 0x02) ESP_GATT_PERM_READ ESP_GATT_CHAR_PROP_BIT_READ]
      else if b = 0x02 then
        [Gatts_add_char ph (mds_char_uuid 0x03) ESP_GATT_PERM_READ ESP_GATT_CHAR_PROP_BIT_READ]
      else if b = 0x03 then
        [Gatts_add_char ph (mds_char_uuid 0x04) ESP_GATT_PERM_READ ESP_GATT_CHAR_PROP_BIT_READ]
      else if b = 0x04 then
        [Gatts_add_char ph (mds_char_uuid 0x05) ESP_GATT_PERM_WRITE
           (ESP_GATT_CHAR_PROP_BIT_WRITE OR ESP_GATT_CHAR_PROP_BIT_NOTIFY)]
      else if b = 0x05 then
        [Gatts_add_char_descr ph
           \<lparr>uuid_len = ESP_UUID_LEN_16,
            uuid_bytes = [ucast ESP_GATT_UUID_CHAR_CLIENT_CONFIG,
                          ucast (drop_bit 8 ESP_GATT_UUID_CHAR_CLIENT_CONFIG)]\<rparr>
           (ESP_GATT_PERM_READ OR ESP_GATT_PERM_WRITE)]
      else [])"

text \<open>The bytes of a C string, as \<^verbatim>\<open>memcpy\<close> copies them.\<close>

definition bytes_of :: "string \<Rightarrow> u8 list" where
  "bytes_of s = map (\<lambda>c. of_nat (of_char c)) s"

text \<open>The read case.\<close>

definition read_evt :: "esp_gatt_if_t \<Rightarrow> u16 \<Rightarrow> u32 \<Rightarrow> u16 \<Rightarrow> globals \<Rightarrow> action list" where
  "read_evt gatts_if conn trans_id handle g =
     (let ok = (\<lambda>v. [Gatts_send_response gatts_if conn trans_id ESP_GATT_OK
                       (Some \<lparr>rsp_handle = handle, rsp_len = of_nat (length v), rsp_value = v\<rparr>)])
      in
        if handle = supported_features_handle (mds_handles g) then ok mds_supported_features
        else if handle = device_id_handle (mds_handles g) then ok (bytes_of mds_device_id)
        else if handle = data_uri_handle (mds_handles g) then ok (bytes_of (mds_data_uri g))
        else if handle = auth_handle (mds_handles g) then ok (bytes_of mds_auth)
        else [Gatts_send_response gatts_if conn trans_id ESP_GATT_INVALID_HANDLE None])"

text \<open>The write case, first branch: the handle is the DataExport characteristic's.\<close>

definition write_data_export ::
  "env \<Rightarrow> esp_gatt_if_t \<Rightarrow> u16 \<Rightarrow> u32 \<Rightarrow> u8 list \<Rightarrow> globals \<Rightarrow> globals \<times> action list" where
  "write_data_export e gatts_if conn trans_id val g =
     (if length val \<noteq> 1
      then (g, [Gatts_send_response gatts_if conn trans_id MDS_ERR_INVALID_LENGTH None])
      else if \<not> subscribed (mds_state g)
      then (g, [Gatts_send_response gatts_if conn trans_id MDS_ERR_CLIENT_NOT_SUBSCRIBED None])
      else
        let mode = val ! 0 in
          if mode \<noteq> 0x00 \<and> mode \<noteq> 0x01
          then (g, [Gatts_send_response gatts_if conn trans_id ESP_GATT_INVALID_PDU None])
          else
            let g1 = g\<lparr>mds_state := (mds_state g)\<lparr>export_mode := mode\<rparr>\<rparr>;
                rsp = Gatts_send_response gatts_if conn trans_id ESP_GATT_OK None
            in
              if mode = 0x01
              then (let (g2, acts) = send_chunk_notification e gatts_if g1 in (g2, rsp # acts))
              else (g1, [rsp]))"

text \<open>The write case, second branch: the handle is the descriptor's.
  \<open>descr_value\<close> is \<^verbatim>\<open>value[1] << 8 | value[0]\<close> stored into a \<^verbatim>\<open>uint16_t\<close>.\<close>

definition descr_value :: "u8 list \<Rightarrow> u16" where
  "descr_value val = push_bit 8 (ucast (val ! 1)) OR ucast (val ! 0)"

definition write_cccd ::
  "esp_gatt_if_t \<Rightarrow> u16 \<Rightarrow> u32 \<Rightarrow> u8 list \<Rightarrow> globals \<Rightarrow> globals \<times> action list" where
  "write_cccd gatts_if conn trans_id val g =
     (if length val \<noteq> 2
      then (g, [Gatts_send_response gatts_if conn trans_id MDS_ERR_INVALID_LENGTH None])
      else
        let notifications_enabled = (descr_value val AND 0x0001 \<noteq> 0) in
          if notifications_enabled \<and> subscribed (mds_state g) \<and> conn_id (mds_state g) \<noteq> conn
          then (g, [Gatts_send_response gatts_if conn trans_id MDS_ERR_CLIENT_ALREADY_SUBSCRIBED None])
          else
            let s1 = (mds_state g)\<lparr>subscribed := notifications_enabled,
                                    conn_id := (if notifications_enabled then conn else 0xFFFF)\<rparr>;
                s2 = (if \<not> notifications_enabled then s1\<lparr>export_mode := 0x00\<rparr> else s1)
            in (g\<lparr>mds_state := s2\<rparr>,
                [Gatts_send_response gatts_if conn trans_id ESP_GATT_OK None]))"

text \<open>The handler: one equation for each case of the switch.\<close>

fun gatts_profile_event_handler ::
  "env \<Rightarrow> esp_gatts_cb_event_t \<Rightarrow> esp_gatt_if_t \<Rightarrow> globals \<Rightarrow> globals \<times> action list" where
  "gatts_profile_event_handler e (ESP_GATTS_REG_EVT status app_id) gatts_if g =
     (let sid = \<lparr>is_primary = True, inst_id = 0x00,
                 srvc_uuid = \<lparr>uuid_len = ESP_UUID_LEN_128, uuid_bytes = adv_service_uuid128\<rparr>\<rparr>
      in (g\<lparr>service_id := sid\<rparr>, [Gatts_create_service gatts_if sid MDS_NUM_HANDLES]))"
| "gatts_profile_event_handler e (ESP_GATTS_CREATE_EVT status service_handle) gatts_if g =
     (g\<lparr>profile_handle := service_handle\<rparr>,
      [Gatts_add_char service_handle (mds_char_uuid 0x01) ESP_GATT_PERM_READ
         ESP_GATT_CHAR_PROP_BIT_READ])"
| "gatts_profile_event_handler e (ESP_GATTS_ADD_CHAR_EVT status attr_handle service_handle b)
       gatts_if g =
     (g\<lparr>mds_handles := record_char_handle b attr_handle (mds_handles g)\<rparr>,
      add_next_attribute b (profile_handle g))"
| "gatts_profile_event_handler e (ESP_GATTS_ADD_CHAR_DESCR_EVT status attr_handle service_handle u)
       gatts_if g =
     ((if u = ESP_GATT_UUID_CHAR_CLIENT_CONFIG
       then g\<lparr>mds_handles := (mds_handles g)\<lparr>data_export_cccd_handle := attr_handle\<rparr>\<rparr>
       else g),
      [Gatts_start_service (profile_handle g)])"
| "gatts_profile_event_handler e (ESP_GATTS_READ_EVT conn trans_id handle) gatts_if g =
     (g, read_evt gatts_if conn trans_id handle g)"
| "gatts_profile_event_handler e (ESP_GATTS_WRITE_EVT conn trans_id handle val) gatts_if g =
     (if handle = data_export_handle (mds_handles g)
      then write_data_export e gatts_if conn trans_id val g
      else if handle = data_export_cccd_handle (mds_handles g)
      then write_cccd gatts_if conn trans_id val g
      else (g, []))"
| "gatts_profile_event_handler e ESP_GATTS_CONF_EVT gatts_if g =
     (if export_mode (mds_state g) = 0x01 then send_chunk_notification e gatts_if g else (g, []))"
| "gatts_profile_event_handler e (ESP_GATTS_MTU_EVT m) gatts_if g =
     (g\<lparr>mds_state := (mds_state g)\<lparr>mtu := m\<rparr>\<rparr>, [])"
| "gatts_profile_event_handler e (ESP_GATTS_DISCONNECT_EVT reason) gatts_if g =
     (g\<lparr>mds_state := (mds_state g)\<lparr>subscribed := False, conn_id := 0xFFFF, export_mode := 0\<rparr>\<rparr>,
      [Gap_start_advertising])"
| "gatts_profile_event_handler e (ESP_GATTS_START_EVT status) gatts_if g =
     (if status = ESP_GATT_OK then (g, [])
      else (g, [ESP_LOGE ''GATTS service start failed, error status = %d'']))"
| "gatts_profile_event_handler e (ESP_GATTS_CONGEST_EVT c) gatts_if g =
     (let g1 = g\<lparr>mds_state := (mds_state g)\<lparr>congested := c\<rparr>\<rparr> in
        if \<not> congested (mds_state g1) \<and> export_mode (mds_state g1) = 0x01
        then send_chunk_notification e gatts_if g1
        else (g1, []))"
| "gatts_profile_event_handler e ESP_GATTS_OTHER_EVT gatts_if g = (g, [])"

subsection \<open>Running a sequence of events\<close>

text \<open>
  One input is an event, the interface it arrives on, and what the outside answers while
  it is handled. The stack delivers the next event only after the handler has returned.
\<close>

type_synonym input = "env \<times> esp_gatts_cb_event_t \<times> esp_gatt_if_t"

fun run :: "globals \<Rightarrow> input list \<Rightarrow> globals" where
  "run g [] = g"
| "run g ((e, ev, gatts_if) # rest) = run (fst (gatts_profile_event_handler e ev gatts_if g)) rest"

text \<open>All calls made during a sequence of events, in order.\<close>

fun run_actions :: "globals \<Rightarrow> input list \<Rightarrow> action list" where
  "run_actions g [] = []"
| "run_actions g ((e, ev, gatts_if) # rest) =
     (let (g', acts) = gatts_profile_event_handler e ev gatts_if g in acts @ run_actions g' rest)"

subsection \<open>Notions the properties are stated with\<close>

text \<open>The chunk notifications among a list of calls.\<close>

fun is_notification :: "action \<Rightarrow> bool" where
  "is_notification (Gatts_send_indicate gatts_if conn handle value_len val need_confirm) = True"
| "is_notification _ = False"

definition notifications :: "action list \<Rightarrow> action list" where
  "notifications acts = filter is_notification acts"

text \<open>
  The three triggers of a chunk send: a DataExport write of the single byte 1 by a
  subscribed session, a confirmation while streaming, and a congestion event that reports
  the link free while streaming.
\<close>

fun send_trigger :: "esp_gatts_cb_event_t \<Rightarrow> globals \<Rightarrow> bool" where
  "send_trigger (ESP_GATTS_WRITE_EVT conn trans_id handle val) g =
     (handle = data_export_handle (mds_handles g) \<and> subscribed (mds_state g) \<and> val = [0x01])"
| "send_trigger ESP_GATTS_CONF_EVT g = (export_mode (mds_state g) = 0x01)"
| "send_trigger (ESP_GATTS_CONGEST_EVT c) g = (\<not> c \<and> export_mode (mds_state g) = 0x01)"
| "send_trigger ev g = False"

text \<open>The number of events of a sequence that are triggers when they arrive.\<close>

fun trigger_count :: "globals \<Rightarrow> input list \<Rightarrow> nat" where
  "trigger_count g [] = 0"
| "trigger_count g ((e, ev, gatts_if) # rest) =
     (if send_trigger ev g then 1 else 0)
     + trigger_count (fst (gatts_profile_event_handler e ev gatts_if g)) rest"

text \<open>
  Strict single-in-flight pacing of a sequence of events. A chunk is in flight from its
  submission until an event that clears it: a confirmation, a congestion event reporting the
  link free, or any event that leaves the engine idle (which covers the drained source).
  \<open>clears_in_flight ev g'\<close> takes the event and the globals after it. The pacing holds when
  every event submits at most one chunk, and none while a chunk is still in flight.
\<close>

fun clears_in_flight :: "esp_gatts_cb_event_t \<Rightarrow> globals \<Rightarrow> bool" where
  "clears_in_flight ESP_GATTS_CONF_EVT g' = True"
| "clears_in_flight (ESP_GATTS_CONGEST_EVT c) g' = (\<not> c)"
| "clears_in_flight ev g' = (export_mode (mds_state g') = 0x00)"

fun single_in_flight :: "bool \<Rightarrow> globals \<Rightarrow> input list \<Rightarrow> bool" where
  "single_in_flight in_flight g [] = True"
| "single_in_flight in_flight g ((e, ev, gatts_if) # rest) =
     (let (g', acts) = gatts_profile_event_handler e ev gatts_if g;
          still = (in_flight \<and> \<not> clears_in_flight ev g')
      in if notifications acts = [] then single_in_flight still g' rest
         else \<not> still \<and> length (notifications acts) = 1 \<and> single_in_flight True g' rest)"

text \<open>
  The headers of the notifications the stack accepted during a sequence of events, in
  order: the first byte of each buffer whose submission returned \<open>ESP_OK\<close>.
\<close>

fun header_bytes :: "action \<Rightarrow> u8 list" where
  "header_bytes (Gatts_send_indicate gatts_if conn handle value_len val need_confirm) = take 1 val"
| "header_bytes _ = []"

fun accepted_headers :: "globals \<Rightarrow> input list \<Rightarrow> u8 list" where
  "accepted_headers g [] = []"
| "accepted_headers g ((e, ev, gatts_if) # rest) =
     (let (g', acts) = gatts_profile_event_handler e ev gatts_if g in
        (if send_indicate_ret e = ESP_OK then concat (map header_bytes acts) else [])
        @ accepted_headers g' rest)"

text \<open>
  What one event may do to the sequence counter, from the globals \<open>g\<close> before to \<open>g'\<close>
  after, with the calls \<open>acts\<close> made: nothing submitted and the counter kept; one buffer
  submitted and accepted, the counter advanced; one buffer submitted and refused, the
  counter kept and the packetizer told to abort once.
\<close>

definition seq_step :: "env \<Rightarrow> globals \<Rightarrow> globals \<Rightarrow> action list \<Rightarrow> bool" where
  "seq_step e g g' acts =
     ((concat (map header_bytes acts) = [] \<and> notifications acts = []
          \<and> chunk_sequence (mds_state g') = chunk_sequence (mds_state g)
          \<and> count_list acts Packetizer_abort = 0)
       \<or> (concat (map header_bytes acts) = [chunk_sequence (mds_state g) AND 0x1F]
          \<and> notifications acts \<noteq> [] \<and> send_indicate_ret e = ESP_OK
          \<and> chunk_sequence (mds_state g') = (chunk_sequence (mds_state g) + 1) AND 0x1F
          \<and> count_list acts Packetizer_abort = 0)
       \<or> (concat (map header_bytes acts) = [chunk_sequence (mds_state g) AND 0x1F]
          \<and> notifications acts \<noteq> [] \<and> send_indicate_ret e \<noteq> ESP_OK
          \<and> chunk_sequence (mds_state g') = chunk_sequence (mds_state g)
          \<and> count_list acts Packetizer_abort = 1))"

text \<open>Each element is its predecessor plus one, modulo 32.\<close>

fun successive_mod32 :: "u8 list \<Rightarrow> bool" where
  "successive_mod32 (a # b # rest) = (unat b = (unat a + 1) mod 32 \<and> successive_mod32 (b # rest))"
| "successive_mod32 hs = True"

text \<open>
  The contract of \<^verbatim>\<open>memfault_packetizer_get_chunk\<close>: it writes no more bytes than the
  buffer it is handed can hold.
\<close>

definition packetizer_respects_capacity :: "env \<Rightarrow> bool" where
  "packetizer_respects_capacity e =
     (\<forall>cap data. packetizer_get_chunk e cap = Some data \<longrightarrow> length data \<le> cap)"

text \<open>
  What holds of \<^verbatim>\<open>malloc\<close> on a target whose \<^verbatim>\<open>size_t\<close> has 32 bits: a request for no bytes
  returns \<^verbatim>\<open>NULL\<close>, and so does a request for all of the address space but its last three
  bytes, or more.
\<close>

definition allocator_bounded :: "env \<Rightarrow> bool" where
  "allocator_bounded e = (\<forall>n. malloc_ok e n \<longrightarrow> 0 < n \<and> n < 4294967293)"

subsection \<open>Concrete inputs for the examples\<close>

text \<open>
  A packetizer holding the two bytes AA BB and a stack that accepts every submission; the
  same with a stack that refuses; the same with an allocator that refuses a request for no
  bytes and for 4294967293 bytes or more; and a drained packetizer.
\<close>

definition env_accept :: env where
  "env_accept =
     \<lparr>malloc_ok = (\<lambda>n. True), packetizer_get_chunk = (\<lambda>cap. Some (take cap [0xAA, 0xBB])),
      send_indicate_ret = 0\<rparr>"

definition env_refuse :: env where
  "env_refuse =
     \<lparr>malloc_ok = (\<lambda>n. True), packetizer_get_chunk = (\<lambda>cap. Some (take cap [0xAA, 0xBB])),
      send_indicate_ret = -1\<rparr>"

definition env_bounded :: env where
  "env_bounded =
     \<lparr>malloc_ok = (\<lambda>n. 0 < n \<and> n < 4294967293),
      packetizer_get_chunk = (\<lambda>cap. Some (take cap [0xAA, 0xBB])), send_indicate_ret = 0\<rparr>"

definition env_drained :: env where
  "env_drained =
     \<lparr>malloc_ok = (\<lambda>n. True), packetizer_get_chunk = (\<lambda>cap. None), send_indicate_ret = 0\<rparr>"

text \<open>
  The service being built on interface 3, every confirmation carrying the status \<open>st\<close>:
  service handle 40, the five value handles 42, 44, 46, 48, 50 and the descriptor handle 51.
\<close>

definition build_inputs :: "esp_gatt_status_t \<Rightarrow> input list" where
  "build_inputs st =
     [(env_accept, ESP_GATTS_REG_EVT st 0, 3),
      (env_accept, ESP_GATTS_CREATE_EVT st 40, 3),
      (env_accept, ESP_GATTS_ADD_CHAR_EVT st 42 40 0x01, 3),
      (env_accept, ESP_GATTS_ADD_CHAR_EVT st 44 40 0x02, 3),
      (env_accept, ESP_GATTS_ADD_CHAR_EVT st 46 40 0x03, 3),
      (env_accept, ESP_GATTS_ADD_CHAR_EVT st 48 40 0x04, 3),
      (env_accept, ESP_GATTS_ADD_CHAR_EVT st 50 40 0x05, 3),
      (env_accept, ESP_GATTS_ADD_CHAR_DESCR_EVT st 51 40 ESP_GATT_UUID_CHAR_CLIENT_CONFIG, 3)]"

text \<open>The globals once the service is built, and once connection 7 has subscribed.\<close>

definition g_built :: globals where
  "g_built = run (globals_init []) (build_inputs ESP_GATT_OK)"

definition g_subscribed :: globals where
  "g_subscribed = run g_built [(env_accept, ESP_GATTS_WRITE_EVT 7 1 51 [0x01, 0x00], 3)]"

text \<open>The globals after the subscriber has written mode 1 and one chunk has been accepted.\<close>

definition g_streaming :: globals where
  "g_streaming = run g_subscribed [(env_accept, ESP_GATTS_WRITE_EVT 7 2 50 [0x01], 3)]"

section \<open>Properties\<close>

subsection \<open>Auxiliary facts\<close>

lemma run_append: "run g (xs @ ys) = run (run g xs) ys"
  by (induction xs arbitrary: g) auto

lemma len1_nth0: "length val = Suc 0 \<Longrightarrow> val ! 0 = x \<Longrightarrow> val = [x]"
  by (cases val) auto

text \<open>Bit 0 of the descriptor value is bit 0 of the first payload byte.\<close>

lemma even_descr_value: "even (descr_value val) = even (val ! 0)"
proof -
  have "bit (push_bit 8 (ucast (val ! 1)) OR (ucast (val ! 0)) :: u16) 0 = bit (val ! 0) 0"
    by (simp add: bit_or_iff bit_push_bit_iff bit_ucast_iff)
  then show ?thesis by (simp add: bit_0 descr_value_def)
qed

lemma and1_bit0: "((w :: 'a::len word) AND 1 \<noteq> 0) = bit w 0"
  by (simp add: and_one_eq mod_2_eq_odd bit_0)

text \<open>The concrete globals, computed.\<close>

lemma g_built_handles:
  "mds_handles g_built =
     \<lparr>supported_features_handle = 42, device_id_handle = 44, data_uri_handle = 46,
      auth_handle = 48, data_export_handle = 50, data_export_cccd_handle = 51\<rparr>"
  by (simp add: g_built_def build_inputs_def globals_init_def mds_handles_init_def
      record_char_handle_def Let_def)

lemma g_built_state: "mds_state g_built = mds_state_init"
  by (simp add: g_built_def build_inputs_def globals_init_def Let_def)

lemma g_subscribed_handles: "mds_handles g_subscribed = mds_handles g_built"
  by (simp add: g_subscribed_def g_built_handles write_cccd_def Let_def)

lemma g_subscribed_state:
  "mds_state g_subscribed =
     \<lparr>subscribed = True, conn_id = 7, export_mode = 0, chunk_sequence = 0, mtu = 23,
      congested = False\<rparr>"
  by (simp add: g_subscribed_def g_built_handles g_built_state write_cccd_def descr_value_def
       mds_state_init_def Let_def)

lemma g_streaming_handles: "mds_handles g_streaming = mds_handles g_built"
  by (simp add: g_streaming_def g_subscribed_handles g_built_handles g_subscribed_state
      write_data_export_def send_chunk_notification_def max_chunk_size_def env_accept_def
      ESP_OK_def Let_def)

lemma g_streaming_state:
  "mds_state g_streaming =
     \<lparr>subscribed = True, conn_id = 7, export_mode = 1, chunk_sequence = 1, mtu = 23,
      congested = False\<rparr>"
  by (simp add: g_streaming_def g_subscribed_handles g_built_handles g_subscribed_state
      write_data_export_def send_chunk_notification_def max_chunk_size_def env_accept_def
      ESP_OK_def Let_def)

text \<open>When no session is subscribed, the recorded connection is the sentinel.\<close>

lemma handler_unsubscribed_sentinel:
  assumes "subscribed (mds_state g) \<or> conn_id (mds_state g) = 0xFFFF"
  shows "subscribed (mds_state (fst (gatts_profile_event_handler e ev gatts_if g)))
         \<or> conn_id (mds_state (fst (gatts_profile_event_handler e ev gatts_if g))) = 0xFFFF"
  using assms
  by (cases ev)
     (auto simp: write_data_export_def write_cccd_def send_chunk_notification_def Let_def
        split: option.splits if_splits prod.splits)

lemma run_unsubscribed_sentinel:
  "subscribed (mds_state g) \<or> conn_id (mds_state g) = 0xFFFF \<Longrightarrow>
   subscribed (mds_state (run g ins)) \<or> conn_id (mds_state (run g ins)) = 0xFFFF"
proof (induction ins arbitrary: g)
  case Nil
  then show ?case by simp
next
  case (Cons x ins)
  obtain e ev gatts_if where x: "x = (e, ev, gatts_if)" by (cases x) auto
  show ?case
    unfolding x run.simps
    by (rule Cons.IH) (rule handler_unsubscribed_sentinel [OF Cons.prems])
qed

text \<open>Arithmetic of the five-bit counter and of the buffer sizes.\<close>

lemma unat_and31: "unat ((x :: u8) AND 0x1F) = unat x mod 32"
proof -
  have "(0x1F :: u8) = mask 5" by (simp add: mask_eq_exp_minus_1)
  then have "x AND 0x1F = take_bit 5 x" by (simp add: take_bit_eq_mask)
  then have "unat (x AND 0x1F) = take_bit 5 (unat x)" by (simp only: unsigned_take_bit_eq)
  then show ?thesis by (simp add: take_bit_eq_mod)
qed

lemma unat_succ_and31: "unat (((x :: u8) + 1) AND 0x1F) = (unat x + 1) mod 32"
proof -
  have "unat (x + 1) = (unat x + 1) mod 256"
    by (simp add: unat_word_ariths)
  then have "unat (x + 1) mod 32 = (unat x + 1) mod 32"
    by (simp add: mod_mod_cancel)
  then show ?thesis by (simp add: unat_and31)
qed

lemma payload_header_rfu0: "payload_header s 0 = s AND 0x1F"
  by (simp add: payload_header_def)

lemma and31_high: "((x :: u8) AND 0x1F) AND 0xE0 = 0"
  by (simp add: word_bw_assocs)

lemma lt32_and31: "unat (x :: u8) < 32 \<Longrightarrow> x AND 0x1F = x"
proof -
  assume "unat x < 32"
  then have "unat (x AND 0x1F) = unat x" by (simp add: unat_and31)
  then show ?thesis by (simp add: word_unat_eq_iff)
qed

lemma unat_ucast_mtu: "unat (ucast (m :: u16) :: size_t) = unat m"
proof -
  have "unat m < 2 ^ 32"
    using unsigned_less [of m, where ?'a = nat] by simp
  then show ?thesis
    by (simp add: unsigned_ucast_eq take_bit_nat_eq_self)
qed

lemma unat_max_chunk_size:
  assumes "4 \<le> unat m"
  shows "unat (max_chunk_size m) = unat m - 4"
proof -
  have "(4 :: size_t) \<le> ucast m"
    using assms by (simp add: word_le_nat_alt unat_ucast_mtu)
  then have "unat (ucast m - 4 :: size_t) = unat (ucast m :: size_t) - unat (4 :: size_t)"
    by (rule unat_sub)
  then show ?thesis by (simp add: max_chunk_size_def unat_ucast_mtu)
qed

lemma unat_value_len:
  assumes "n + 4 \<le> 65535"
  shows "unat (ucast (1 + of_nat n :: size_t) :: u16) = 1 + n"
proof -
  have "unat (of_nat n :: size_t) = n"
    using assms by (simp add: unat_of_nat)
  then have "unat (1 + of_nat n :: size_t) = 1 + n"
    using assms by (simp add: unat_word_ariths)
  then have "unat (ucast (1 + of_nat n :: size_t) :: u16) = (1 + n) mod 65536"
    by (simp add: unsigned_ucast_eq take_bit_eq_mod)
  then show ?thesis using assms by simp
qed

text \<open>Which events submit a chunk, and how many.\<close>

lemma handler_trigger:
  "length (notifications (snd (gatts_profile_event_handler e ev gatts_if g))) \<le> 1
   \<and> (notifications (snd (gatts_profile_event_handler e ev gatts_if g)) \<noteq> [] \<longrightarrow> send_trigger ev g)"
  by (cases ev)
     (auto simp: write_data_export_def write_cccd_def read_evt_def Let_def notifications_def
        send_chunk_notification_def add_next_attribute_def len1_nth0
        split: option.splits if_splits prod.splits)

lemma handler_env_irrelevant:
  "\<not> send_trigger ev g \<Longrightarrow>
   gatts_profile_event_handler e ev gatts_if g = gatts_profile_event_handler e' ev gatts_if g"
  by (cases ev)
     (auto simp: write_data_export_def Let_def len1_nth0 split: prod.splits)

lemma notifications_append: "notifications (xs @ ys) = notifications xs @ notifications ys"
  by (simp add: notifications_def)

lemma run_notifications_le_triggers:
  "length (notifications (run_actions g ins)) \<le> trigger_count g ins"
proof (induction ins arbitrary: g)
  case Nil
  then show ?case by (simp add: notifications_def)
next
  case (Cons x ins)
  obtain e ev gatts_if where x: "x = (e, ev, gatts_if)" by (cases x) auto
  obtain g' acts where h: "gatts_profile_event_handler e ev gatts_if g = (g', acts)"
    by (cases "gatts_profile_event_handler e ev gatts_if g") auto
  have step: "length (notifications acts) \<le> (if send_trigger ev g then 1 else 0)"
    using handler_trigger [of e ev gatts_if g] h by (auto split: if_splits)
  have "length (notifications (run_actions g' ins)) \<le> trigger_count g' ins"
    by (rule Cons.IH)
  with step show ?case
    by (simp add: x h notifications_append)
qed

text \<open>Every event is a \<open>seq_step\<close>.\<close>

lemma scn_seq_step:
  "seq_step e g (fst (send_chunk_notification e gatts_if g)) (snd (send_chunk_notification e gatts_if g))"
  by (simp add: seq_step_def send_chunk_notification_def Let_def notifications_def
      payload_header_rfu0 split: option.splits)

lemma seq_step_same_counter:
  "chunk_sequence (mds_state g1) = chunk_sequence (mds_state g) \<Longrightarrow>
   seq_step e g1 g' acts = seq_step e g g' acts"
  by (simp add: seq_step_def)

lemma seq_step_response:
  "seq_step e g g' (Gatts_send_response gatts_if conn trans_id st rsp # acts) = seq_step e g g' acts"
  by (simp add: seq_step_def notifications_def)

lemma seq_step_quiet:
  "concat (map header_bytes acts) = [] \<Longrightarrow> notifications acts = [] \<Longrightarrow>
   count_list acts Packetizer_abort = 0 \<Longrightarrow>
   chunk_sequence (mds_state g') = chunk_sequence (mds_state g) \<Longrightarrow> seq_step e g g' acts"
  by (simp add: seq_step_def)

lemma write_data_export_seq_step:
  "seq_step e g (fst (write_data_export e gatts_if conn trans_id val g))
     (snd (write_data_export e gatts_if conn trans_id val g))"
proof -
  let ?g1 = "g\<lparr>mds_state := (mds_state g)\<lparr>export_mode := 0x01\<rparr>\<rparr>"
  have "chunk_sequence (mds_state ?g1) = chunk_sequence (mds_state g)" by simp
  then have "seq_step e g (fst (send_chunk_notification e gatts_if ?g1))
          (snd (send_chunk_notification e gatts_if ?g1))"
    using scn_seq_step [of e ?g1 gatts_if] by (simp only: seq_step_same_counter [of ?g1 g])
  then show ?thesis
    by (simp add: write_data_export_def Let_def seq_step_response seq_step_quiet
          notifications_def case_prod_beta)
qed

lemma write_cccd_seq_step:
  "seq_step e g (fst (write_cccd gatts_if conn trans_id val g))
     (snd (write_cccd gatts_if conn trans_id val g))"
  by (simp add: write_cccd_def Let_def seq_step_response seq_step_quiet notifications_def)

lemma handler_seq_step:
  "seq_step e g (fst (gatts_profile_event_handler e ev gatts_if g))
     (snd (gatts_profile_event_handler e ev gatts_if g))"
proof (cases ev)
  case (ESP_GATTS_WRITE_EVT conn trans_id handle val)
  then show ?thesis
    by (simp add: write_data_export_seq_step write_cccd_seq_step seq_step_quiet notifications_def)
next
  case ESP_GATTS_CONF_EVT
  then show ?thesis
    by (simp add: scn_seq_step seq_step_quiet notifications_def)
next
  case (ESP_GATTS_CONGEST_EVT c)
  let ?g1 = "g\<lparr>mds_state := (mds_state g)\<lparr>congested := c\<rparr>\<rparr>"
  have "chunk_sequence (mds_state ?g1) = chunk_sequence (mds_state g)" by simp
  then have "seq_step e g (fst (send_chunk_notification e gatts_if ?g1))
          (snd (send_chunk_notification e gatts_if ?g1))"
    using scn_seq_step [of e ?g1 gatts_if] by (simp only: seq_step_same_counter [of ?g1 g])
  then show ?thesis
    using ESP_GATTS_CONGEST_EVT by (cases c) (simp_all add: Let_def seq_step_quiet notifications_def)
next
  case (ESP_GATTS_READ_EVT conn trans_id handle)
  then show ?thesis
    by (simp add: read_evt_def Let_def seq_step_quiet notifications_def)
next
  case (ESP_GATTS_ADD_CHAR_EVT st attr_handle service_handle b)
  then show ?thesis
    by (simp add: add_next_attribute_def seq_step_quiet notifications_def)
qed (simp_all add: Let_def seq_step_quiet notifications_def)

text \<open>The accepted headers form a chain that starts at the counter's low five bits.\<close>

lemma accepted_headers_chain:
  "successive_mod32 (accepted_headers g ins)
   \<and> (\<forall>h hs. accepted_headers g ins = h # hs \<longrightarrow> h = chunk_sequence (mds_state g) AND 0x1F)"
proof (induction ins arbitrary: g)
  case Nil
  then show ?case by simp
next
  case (Cons x ins)
  obtain e ev gatts_if where x: "x = (e, ev, gatts_if)" by (cases x) auto
  obtain g' acts where h: "gatts_profile_event_handler e ev gatts_if g = (g', acts)"
    by (cases "gatts_profile_event_handler e ev gatts_if g") auto
  let ?s = "chunk_sequence (mds_state g)"
  have IH: "successive_mod32 (accepted_headers g' ins)"
    "\<And>h hs. accepted_headers g' ins = h # hs \<Longrightarrow> h = chunk_sequence (mds_state g') AND 0x1F"
    using Cons.IH [of g'] by auto
  have "seq_step e g g' acts"
    using handler_seq_step [of e g ev gatts_if] h by simp
  then consider
    (quiet) "(if send_indicate_ret e = ESP_OK then concat (map header_bytes acts) else []) = []"
      "chunk_sequence (mds_state g') = ?s"
  | (sent) "(if send_indicate_ret e = ESP_OK then concat (map header_bytes acts) else []) = [?s AND 0x1F]"
      "chunk_sequence (mds_state g') = (?s + 1) AND 0x1F"
    unfolding seq_step_def by auto
  then show ?case
  proof cases
    case quiet
    then show ?thesis using IH by (simp add: x h)
  next
    case sent
    have eq: "accepted_headers g (x # ins) = (?s AND 0x1F) # accepted_headers g' ins"
      using sent(1) by (simp add: x h)
    have "successive_mod32 ((?s AND 0x1F) # accepted_headers g' ins)"
    proof (cases "accepted_headers g' ins")
      case Nil
      then show ?thesis by simp
    next
      case (Cons b bs)
      then have "b = (?s + 1) AND 0x1F" using IH(2) sent(2) by simp
      then have "unat b = (unat ?s + 1) mod 32"
        by (simp only: unat_succ_and31)
      then have "unat b = (unat (?s AND 0x1F) + 1) mod 32"
        by (simp add: unat_and31 mod_Suc_eq)
      then show ?thesis using IH(1) Cons by simp
    qed
    then show ?thesis by (simp add: eq)
  qed
qed

text \<open>From the initial globals the counter stays below 32.\<close>

lemma handler_sequence_bound:
  assumes "unat (chunk_sequence (mds_state g)) < 32"
  shows "unat (chunk_sequence (mds_state (fst (gatts_profile_event_handler e ev gatts_if g)))) < 32"
proof -
  have "seq_step e g (fst (gatts_profile_event_handler e ev gatts_if g))
          (snd (gatts_profile_event_handler e ev gatts_if g))"
    by (rule handler_seq_step)
  then consider
    "chunk_sequence (mds_state (fst (gatts_profile_event_handler e ev gatts_if g))) =
       chunk_sequence (mds_state g)"
  | "chunk_sequence (mds_state (fst (gatts_profile_event_handler e ev gatts_if g))) =
       (chunk_sequence (mds_state g) + 1) AND 0x1F"
    unfolding seq_step_def by auto
  then show ?thesis
  proof cases
    case 1
    then show ?thesis using assms by simp
  next
    case 2
    have "(unat (chunk_sequence (mds_state g)) + 1) mod 32 < 32"
      by simp
    then have "unat ((chunk_sequence (mds_state g) + 1) AND 0x1F) < 32"
      by (simp only: unat_succ_and31)
    with 2 show ?thesis by simp
  qed
qed

lemma run_sequence_bound:
  "unat (chunk_sequence (mds_state g)) < 32 \<Longrightarrow>
   unat (chunk_sequence (mds_state (run g ins))) < 32"
proof (induction ins arbitrary: g)
  case Nil
  then show ?case by simp
next
  case (Cons x ins)
  obtain e ev gatts_if where x: "x = (e, ev, gatts_if)" by (cases x) auto
  show ?case
    unfolding x run.simps
    by (rule Cons.IH) (rule handler_sequence_bound [OF Cons.prems])
qed

text \<open>The shape of a submitted notification.\<close>

lemma scn_notification_shape:
  assumes "Gatts_send_indicate gi c h vl v nc \<in> set (snd (send_chunk_notification e gatts_if g))"
  shows "\<exists>data. malloc_ok e (unat (1 + max_chunk_size (mtu (mds_state g))))
           \<and> packetizer_get_chunk e (unat (max_chunk_size (mtu (mds_state g)))) = Some data
           \<and> v = payload_header (chunk_sequence (mds_state g)) 0 # data
           \<and> vl = ucast (1 + of_nat (length data) :: size_t)
           \<and> gi = gatts_if \<and> c = conn_id (mds_state g)
           \<and> h = data_export_handle (mds_handles g) \<and> nc = False"
  using assms
  by (auto simp: send_chunk_notification_def Let_def split: option.splits if_splits)

lemma handler_notification_shape:
  assumes "Gatts_send_indicate gi c h vl v nc \<in> set (snd (gatts_profile_event_handler e ev gatts_if g))"
  shows "\<exists>data. malloc_ok e (unat (1 + max_chunk_size (mtu (mds_state g))))
           \<and> packetizer_get_chunk e (unat (max_chunk_size (mtu (mds_state g)))) = Some data
           \<and> v = payload_header (chunk_sequence (mds_state g)) 0 # data
           \<and> vl = ucast (1 + of_nat (length data) :: size_t)
           \<and> gi = gatts_if \<and> c = conn_id (mds_state g)
           \<and> h = data_export_handle (mds_handles g) \<and> nc = False"
proof (cases ev)
  case (ESP_GATTS_WRITE_EVT conn trans_id handle val)
  let ?g1 = "g\<lparr>mds_state := (mds_state g)\<lparr>export_mode := 0x01\<rparr>\<rparr>"
  have "Gatts_send_indicate gi c h vl v nc \<in> set (snd (send_chunk_notification e gatts_if ?g1))"
    using assms ESP_GATTS_WRITE_EVT
    by (auto simp: write_data_export_def write_cccd_def Let_def case_prod_beta split: if_splits)
  from scn_notification_shape [OF this] show ?thesis by simp
next
  case ESP_GATTS_CONF_EVT
  then have "Gatts_send_indicate gi c h vl v nc \<in> set (snd (send_chunk_notification e gatts_if g))"
    using assms by (auto split: if_splits)
  from scn_notification_shape [OF this] show ?thesis by simp
next
  case (ESP_GATTS_CONGEST_EVT cg)
  let ?g1 = "g\<lparr>mds_state := (mds_state g)\<lparr>congested := cg\<rparr>\<rparr>"
  have "Gatts_send_indicate gi c h vl v nc \<in> set (snd (send_chunk_notification e gatts_if ?g1))"
    using assms ESP_GATTS_CONGEST_EVT by (auto simp: Let_def split: if_splits)
  from scn_notification_shape [OF this] show ?thesis by simp
next
  case (ESP_GATTS_READ_EVT conn trans_id handle)
  then show ?thesis using assms by (auto simp: read_evt_def Let_def split: if_splits)
next
  case (ESP_GATTS_ADD_CHAR_EVT st attr_handle service_handle b)
  then show ?thesis using assms by (auto simp: add_next_attribute_def split: if_splits)
qed (use assms in \<open>auto simp: Let_def split: if_splits\<close>)

subsection \<open>The chunk send declines silently\<close>

text \<open>
  Claim C8. \<^verbatim>\<open>send_chunk_notification\<close> does nothing at all (the globals are returned as
  they were and no call is made, so nothing is sent and nothing is logged) whenever the
  session is not subscribed, or the export mode is not 1, or the link is congested. When
  the three conditions hold, the buffer is allocated and the packetizer reports no data,
  the only effect is that the export mode becomes 0; no call is made.
\<close>

theorem send_chunk_notification_declines:
  "(\<not> subscribed (mds_state g) \<or> export_mode (mds_state g) \<noteq> 0x01 \<or> congested (mds_state g)
      \<longrightarrow> send_chunk_notification e gatts_if g = (g, []))
   \<and> (subscribed (mds_state g) \<and> export_mode (mds_state g) = 0x01 \<and> \<not> congested (mds_state g)
       \<and> malloc_ok e (unat (1 + max_chunk_size (mtu (mds_state g))))
       \<and> packetizer_get_chunk e (unat (max_chunk_size (mtu (mds_state g)))) = None
      \<longrightarrow> send_chunk_notification e gatts_if g =
            (g\<lparr>mds_state := (mds_state g)\<lparr>export_mode := 0x00\<rparr>\<rparr>, []))"
  by (simp add: send_chunk_notification_def Let_def)

theorem send_chunk_notification_declines_witness:
  "\<not> subscribed (mds_state g_built)
   \<and> send_chunk_notification env_accept 3 g_built = (g_built, [])
   \<and> subscribed (mds_state g_streaming) \<and> export_mode (mds_state g_streaming) = 0x01
   \<and> \<not> congested (mds_state g_streaming)
   \<and> malloc_ok env_drained (unat (1 + max_chunk_size (mtu (mds_state g_streaming))))
   \<and> packetizer_get_chunk env_drained (unat (max_chunk_size (mtu (mds_state g_streaming)))) = None
   \<and> send_chunk_notification env_drained 3 g_streaming =
       (g_streaming\<lparr>mds_state := (mds_state g_streaming)\<lparr>export_mode := 0x00\<rparr>\<rparr>, [])"
  using send_chunk_notification_declines [of g_built env_accept 3]
    send_chunk_notification_declines [of g_streaming env_drained 3]
  by (simp add: g_built_state g_streaming_state mds_state_init_def env_drained_def)

subsection \<open>A write to any other handle\<close>

text \<open>
  Claim C9. The claim asks for an error response to a write whose handle is neither the
  DataExport characteristic's nor its descriptor's. The write case has no final
  \<^verbatim>\<open>else\<close>: such a write leaves the globals as they were and makes no call at all, so the
  writer gets no response. (The read case does answer an unknown handle, with
  \<open>ESP_GATT_INVALID_HANDLE\<close>.) The example is a write to handle 42, the value handle of
  the first read-only characteristic.
\<close>

theorem write_other_handle_unanswered:
  "handle \<noteq> data_export_handle (mds_handles g) \<Longrightarrow>
   handle \<noteq> data_export_cccd_handle (mds_handles g) \<Longrightarrow>
   gatts_profile_event_handler e (ESP_GATTS_WRITE_EVT conn trans_id handle val) gatts_if g = (g, [])"
  by simp

theorem write_other_handle_unanswered_witness:
  "(42::u16) \<noteq> data_export_handle (mds_handles g_subscribed)
   \<and> 42 \<noteq> data_export_cccd_handle (mds_handles g_subscribed)
   \<and> gatts_profile_event_handler env_accept (ESP_GATTS_WRITE_EVT 7 2 42 [0x01]) 3 g_subscribed
       = (g_subscribed, [])"
  using write_other_handle_unanswered [of 42 g_subscribed env_accept 7 2 "[0x01]" 3]
  by (simp add: g_subscribed_handles g_built_handles)

subsection \<open>Unsubscribing\<close>

text \<open>
  Claim C10. A write of exactly two bytes to the descriptor whose 16-bit little-endian
  value has bit 0 clear is answered with \<open>ESP_GATT_OK\<close> and sets \<open>subscribed\<close> to false,
  \<open>conn_id\<close> to 0xFFFF and \<open>export_mode\<close> to 0, whatever the globals were and whichever
  connection wrote: the guard against a second subscriber applies to enabling writes only.
  In the example connection 9 unsubscribes connection 7.
\<close>

theorem cccd_disable_write_unsubscribes:
  assumes "handle = data_export_cccd_handle (mds_handles g)"
      and "handle \<noteq> data_export_handle (mds_handles g)"
      and "length val = 2" and "\<not> bit (descr_value val) 0"
  shows "gatts_profile_event_handler e (ESP_GATTS_WRITE_EVT conn trans_id handle val) gatts_if g =
           (g\<lparr>mds_state := (mds_state g)
                \<lparr>subscribed := False, conn_id := 0xFFFF, export_mode := 0x00\<rparr>\<rparr>,
            [Gatts_send_response gatts_if conn trans_id ESP_GATT_OK None])"
  using assms by (simp add: write_cccd_def and1_bit0 Let_def)

theorem cccd_disable_write_unsubscribes_witness:
  "(51::u16) = data_export_cccd_handle (mds_handles g_streaming)
   \<and> (51::u16) \<noteq> data_export_handle (mds_handles g_streaming)
   \<and> length [0x00, 0x00 :: u8] = 2 \<and> \<not> bit (descr_value [0x00, 0x00]) 0
   \<and> subscribed (mds_state g_streaming) \<and> conn_id (mds_state g_streaming) = 7
   \<and> gatts_profile_event_handler env_accept (ESP_GATTS_WRITE_EVT 9 5 51 [0x00, 0x00]) 3 g_streaming =
       (g_streaming\<lparr>mds_state := (mds_state g_streaming)
          \<lparr>subscribed := False, conn_id := 0xFFFF, export_mode := 0x00\<rparr>\<rparr>,
        [Gatts_send_response 3 9 5 ESP_GATT_OK None])"
  using cccd_disable_write_unsubscribes [of 51 g_streaming "[0x00, 0x00]" env_accept 9 5 3]
  by (simp add: g_streaming_handles g_built_handles g_streaming_state bit_0 even_descr_value)

subsection \<open>A single subscriber\<close>

text \<open>
  Claim C5. Take a write of exactly two bytes to the descriptor whose 16-bit value has bit 0
  set, arriving while a session is subscribed. If the writer is not the recorded
  connection, the answer is \<open>MDS_ERR_CLIENT_ALREADY_SUBSCRIBED\<close> (0x81) and the globals are
  returned as they were. If the writer is the recorded connection, the answer is
  \<open>ESP_GATT_OK\<close> and the globals are again as they were, so repeating the write changes
  nothing. There is one \<open>conn_id\<close> field, and after any sequence of events from the
  initial globals it holds the sentinel 0xFFFF whenever no session is subscribed.
\<close>

theorem cccd_enable_write_single_subscriber:
  assumes "handle = data_export_cccd_handle (mds_handles g)"
      and "handle \<noteq> data_export_handle (mds_handles g)"
      and "length val = 2" and "bit (descr_value val) 0"
      and "subscribed (mds_state g)"
  shows "(conn_id (mds_state g) \<noteq> conn \<longrightarrow>
            gatts_profile_event_handler e (ESP_GATTS_WRITE_EVT conn trans_id handle val) gatts_if g =
              (g, [Gatts_send_response gatts_if conn trans_id MDS_ERR_CLIENT_ALREADY_SUBSCRIBED None]))
       \<and> (conn_id (mds_state g) = conn \<longrightarrow>
            gatts_profile_event_handler e (ESP_GATTS_WRITE_EVT conn trans_id handle val) gatts_if g =
              (g, [Gatts_send_response gatts_if conn trans_id ESP_GATT_OK None]))
       \<and> MDS_ERR_CLIENT_ALREADY_SUBSCRIBED = 0x81
       \<and> (\<not> subscribed (mds_state (run (globals_init uri) ins)) \<longrightarrow>
            conn_id (mds_state (run (globals_init uri) ins)) = 0xFFFF)"
proof -
  have en: "descr_value val AND 0x0001 \<noteq> 0"
    using assms(4) by (simp add: and1_bit0)
  have same: "(mds_state g)\<lparr>subscribed := True, conn_id := conn_id (mds_state g)\<rparr> = mds_state g"
    using assms(5) by simp
  have "subscribed (mds_state (run (globals_init uri) ins))
        \<or> conn_id (mds_state (run (globals_init uri) ins)) = 0xFFFF"
    by (rule run_unsubscribed_sentinel) (simp add: globals_init_def mds_state_init_def)
  then show ?thesis
    using assms(1,2,3,5) en same
    by (auto simp: write_cccd_def Let_def MDS_ERR_CLIENT_ALREADY_SUBSCRIBED_def)
qed

theorem cccd_enable_write_single_subscriber_witness:
  "(51::u16) = data_export_cccd_handle (mds_handles g_streaming)
   \<and> (51::u16) \<noteq> data_export_handle (mds_handles g_streaming)
   \<and> length [0x01, 0x00 :: u8] = 2 \<and> bit (descr_value [0x01, 0x00]) 0
   \<and> subscribed (mds_state g_streaming) \<and> conn_id (mds_state g_streaming) = 7
   \<and> gatts_profile_event_handler env_accept (ESP_GATTS_WRITE_EVT 9 5 51 [0x01, 0x00]) 3 g_streaming =
       (g_streaming, [Gatts_send_response 3 9 5 0x81 None])
   \<and> gatts_profile_event_handler env_accept (ESP_GATTS_WRITE_EVT 7 6 51 [0x01, 0x00]) 3 g_streaming =
       (g_streaming, [Gatts_send_response 3 7 6 ESP_GATT_OK None])"
  using cccd_enable_write_single_subscriber [of 51 g_streaming "[0x01, 0x00]" 9 env_accept 5 3 "[]" "[]"]
        cccd_enable_write_single_subscriber [of 51 g_streaming "[0x01, 0x00]" 7 env_accept 6 3 "[]" "[]"]
  by (simp add: g_streaming_handles g_built_handles g_streaming_state bit_0 even_descr_value)

subsection \<open>Writing the export mode\<close>

text \<open>
  Claim C6. A write to the DataExport characteristic is checked in this order. A payload
  that is not exactly one byte is answered with \<open>MDS_ERR_INVALID_LENGTH\<close> (0x80). Otherwise,
  without a subscribed session the answer is \<open>MDS_ERR_CLIENT_NOT_SUBSCRIBED\<close> (0x82).
  Otherwise a byte other than 0 and 1 is answered with \<open>ESP_GATT_INVALID_PDU\<close>. In these
  three cases the globals are returned as they were. Otherwise the export mode becomes the
  byte written and the answer is \<open>ESP_GATT_OK\<close>; for the byte 1 the response is followed by
  one run of \<^verbatim>\<open>send_chunk_notification\<close> on the updated globals.
\<close>

theorem data_export_write_validation:
  assumes "handle = data_export_handle (mds_handles g)"
  shows "(length val \<noteq> 1 \<longrightarrow>
            gatts_profile_event_handler e (ESP_GATTS_WRITE_EVT conn trans_id handle val) gatts_if g =
              (g, [Gatts_send_response gatts_if conn trans_id MDS_ERR_INVALID_LENGTH None]))
       \<and> (length val = 1 \<and> \<not> subscribed (mds_state g) \<longrightarrow>
            gatts_profile_event_handler e (ESP_GATTS_WRITE_EVT conn trans_id handle val) gatts_if g =
              (g, [Gatts_send_response gatts_if conn trans_id MDS_ERR_CLIENT_NOT_SUBSCRIBED None]))
       \<and> (\<forall>mode. val = [mode] \<and> subscribed (mds_state g) \<and> mode \<noteq> 0x00 \<and> mode \<noteq> 0x01 \<longrightarrow>
            gatts_profile_event_handler e (ESP_GATTS_WRITE_EVT conn trans_id handle val) gatts_if g =
              (g, [Gatts_send_response gatts_if conn trans_id ESP_GATT_INVALID_PDU None]))
       \<and> (val = [0x00] \<and> subscribed (mds_state g) \<longrightarrow>
            gatts_profile_event_handler e (ESP_GATTS_WRITE_EVT conn trans_id handle val) gatts_if g =
              (g\<lparr>mds_state := (mds_state g)\<lparr>export_mode := 0x00\<rparr>\<rparr>,
               [Gatts_send_response gatts_if conn trans_id ESP_GATT_OK None]))
       \<and> (val = [0x01] \<and> subscribed (mds_state g) \<longrightarrow>
            gatts_profile_event_handler e (ESP_GATTS_WRITE_EVT conn trans_id handle val) gatts_if g =
              (fst (send_chunk_notification e gatts_if
                      (g\<lparr>mds_state := (mds_state g)\<lparr>export_mode := 0x01\<rparr>\<rparr>)),
               Gatts_send_response gatts_if conn trans_id ESP_GATT_OK None
                 # snd (send_chunk_notification e gatts_if
                          (g\<lparr>mds_state := (mds_state g)\<lparr>export_mode := 0x01\<rparr>\<rparr>))))
       \<and> MDS_ERR_INVALID_LENGTH = 0x80 \<and> MDS_ERR_CLIENT_NOT_SUBSCRIBED = 0x82"
  using assms
  by (auto simp: write_data_export_def Let_def MDS_ERR_INVALID_LENGTH_def
        MDS_ERR_CLIENT_NOT_SUBSCRIBED_def split: prod.splits)

theorem data_export_write_validation_witness:
  "(50::u16) = data_export_handle (mds_handles g_subscribed)
   \<and> (50::u16) = data_export_handle (mds_handles g_built)
   \<and> subscribed (mds_state g_subscribed) \<and> \<not> subscribed (mds_state g_built)
   \<and> gatts_profile_event_handler env_accept (ESP_GATTS_WRITE_EVT 7 2 50 [0x01, 0x00]) 3 g_subscribed =
       (g_subscribed, [Gatts_send_response 3 7 2 0x80 None])
   \<and> gatts_profile_event_handler env_accept (ESP_GATTS_WRITE_EVT 7 2 50 [0x01]) 3 g_built =
       (g_built, [Gatts_send_response 3 7 2 0x82 None])
   \<and> gatts_profile_event_handler env_accept (ESP_GATTS_WRITE_EVT 7 2 50 [0x02]) 3 g_subscribed =
       (g_subscribed, [Gatts_send_response 3 7 2 ESP_GATT_INVALID_PDU None])
   \<and> gatts_profile_event_handler env_accept (ESP_GATTS_WRITE_EVT 7 2 50 [0x00]) 3 g_subscribed =
       (g_subscribed\<lparr>mds_state := (mds_state g_subscribed)\<lparr>export_mode := 0x00\<rparr>\<rparr>,
        [Gatts_send_response 3 7 2 ESP_GATT_OK None])
   \<and> snd (gatts_profile_event_handler env_accept (ESP_GATTS_WRITE_EVT 7 2 50 [0x01]) 3 g_subscribed) =
       [Gatts_send_response 3 7 2 ESP_GATT_OK None,
        Gatts_send_indicate 3 7 50 3 [0x00, 0xAA, 0xBB] False]
   \<and> export_mode (mds_state (fst (gatts_profile_event_handler env_accept
          (ESP_GATTS_WRITE_EVT 7 2 50 [0x01]) 3 g_subscribed))) = 0x01"
  using data_export_write_validation [of 50 g_subscribed "[0x01, 0x00]" env_accept 7 2 3]
        data_export_write_validation [of 50 g_built "[0x01]" env_accept 7 2 3]
        data_export_write_validation [of 50 g_subscribed "[0x02]" env_accept 7 2 3]
        data_export_write_validation [of 50 g_subscribed "[0x00]" env_accept 7 2 3]
        data_export_write_validation [of 50 g_subscribed "[0x01]" env_accept 7 2 3]
  by (simp add: g_subscribed_handles g_built_handles g_subscribed_state g_built_state
        mds_state_init_def send_chunk_notification_def max_chunk_size_def env_accept_def
        payload_header_def ESP_OK_def Let_def)

subsection \<open>Disconnect\<close>

text \<open>
  Claim C3. The claim says a disconnect puts the whole session back to its initial values.
  The disconnect case is headed by the comment \<^verbatim>\<open>Reset MDS state\<close> and assigns three of the
  six fields. Here the subscriber of \<open>g_subscribed\<close> negotiates an MTU of 185 and starts
  the export, one chunk is accepted, the link reports congestion, and the link drops:
  afterwards the sequence counter is still 1, the MTU still 185 and the congestion flag
  still set, so the session is not the initial one. When connection 8 then subscribes,
  writes mode 1 and two confirmations arrive, no chunk is submitted at all, because the
  flag of the link that is gone still holds the send back.
\<close>

theorem disconnect_leaves_stale_fields:
  "mds_state (run g_subscribed
     [(env_accept, ESP_GATTS_MTU_EVT 185, 3),
      (env_accept, ESP_GATTS_WRITE_EVT 7 2 50 [0x01], 3),
      (env_accept, ESP_GATTS_CONGEST_EVT True, 3),
      (env_accept, ESP_GATTS_DISCONNECT_EVT 0x13, 3)]) =
     \<lparr>subscribed = False, conn_id = 0xFFFF, export_mode = 0, chunk_sequence = 1, mtu = 185,
      congested = True\<rparr>
   \<and> mds_state (run g_subscribed
     [(env_accept, ESP_GATTS_MTU_EVT 185, 3),
      (env_accept, ESP_GATTS_WRITE_EVT 7 2 50 [0x01], 3),
      (env_accept, ESP_GATTS_CONGEST_EVT True, 3),
      (env_accept, ESP_GATTS_DISCONNECT_EVT 0x13, 3)]) \<noteq> mds_state_init
   \<and> run_actions (run g_subscribed
     [(env_accept, ESP_GATTS_MTU_EVT 185, 3),
      (env_accept, ESP_GATTS_WRITE_EVT 7 2 50 [0x01], 3),
      (env_accept, ESP_GATTS_CONGEST_EVT True, 3),
      (env_accept, ESP_GATTS_DISCONNECT_EVT 0x13, 3)])
     [(env_accept, ESP_GATTS_WRITE_EVT 8 4 51 [0x01, 0x00], 3),
      (env_accept, ESP_GATTS_WRITE_EVT 8 5 50 [0x01], 3),
      (env_accept, ESP_GATTS_CONF_EVT, 3),
      (env_accept, ESP_GATTS_CONF_EVT, 3)] =
     [Gatts_send_response 3 8 4 ESP_GATT_OK None, Gatts_send_response 3 8 5 ESP_GATT_OK None]"
  by (simp add: g_subscribed_handles g_built_handles g_subscribed_state mds_state_init_def
        write_data_export_def write_cccd_def descr_value_def send_chunk_notification_def
        max_chunk_size_def env_accept_def ESP_OK_def Let_def)

text \<open>
  What the disconnect case does do, whatever the globals and the reason code: \<open>subscribed\<close>
  becomes false, \<open>conn_id\<close> becomes 0xFFFF and \<open>export_mode\<close> becomes 0, and the one call
  made is the restart of advertising.
\<close>

lemma disconnect_assigns_three_fields:
  "subscribed (mds_state (fst (gatts_profile_event_handler e (ESP_GATTS_DISCONNECT_EVT reason)
       gatts_if g))) = False
   \<and> conn_id (mds_state (fst (gatts_profile_event_handler e (ESP_GATTS_DISCONNECT_EVT reason)
       gatts_if g))) = 0xFFFF
   \<and> export_mode (mds_state (fst (gatts_profile_event_handler e (ESP_GATTS_DISCONNECT_EVT reason)
       gatts_if g))) = 0
   \<and> snd (gatts_profile_event_handler e (ESP_GATTS_DISCONNECT_EVT reason) gatts_if g) =
       [Gap_start_advertising]"
  by simp

subsection \<open>Building the service\<close>

text \<open>
  Claim C4, as the code has it. The claim says a creation confirmation with a non-success
  status stops the build. No creation case reads the status. When every confirmation of the
  build carries the status 0x85, the confirmation of the service still asks for the first
  characteristic, and the run still ends with the request to start the service.
\<close>

theorem failed_creation_still_starts_service:
  "(0x85 :: esp_gatt_status_t) \<noteq> ESP_GATT_OK
   \<and> snd (gatts_profile_event_handler env_accept (ESP_GATTS_CREATE_EVT 0x85 40) 3 (globals_init [])) =
       [Gatts_add_char 40 (mds_char_uuid 0x01) ESP_GATT_PERM_READ ESP_GATT_CHAR_PROP_BIT_READ]
   \<and> snd (gatts_profile_event_handler env_accept
        (ESP_GATTS_ADD_CHAR_DESCR_EVT 0x85 51 40 ESP_GATT_UUID_CHAR_CLIENT_CONFIG) 3 (globals_init [])) =
       [Gatts_start_service 0]
   \<and> Gatts_start_service 40 \<in> set (run_actions (globals_init []) (build_inputs 0x85))"
  by (simp add: build_inputs_def Let_def add_next_attribute_def ESP_GATT_OK_def globals_init_def)

text \<open>
  Claim C4, amended. The creation cases do not read the status. For confirmations that
  arrive in the fixed order of roles, with any status in each and any handles, the calls
  made are exactly: create the service with 12 handles, add the five characteristics in
  order (the first four readable, the fifth writable with notify), add the descriptor,
  start the service. The handle table then holds the six handles confirmed.
\<close>

theorem build_sequence_ignores_status:
  "run_actions (globals_init uri)
     [(e0, ESP_GATTS_REG_EVT st0 app_id, gatts_if),
      (e1, ESP_GATTS_CREATE_EVT st1 sh, gatts_if),
      (e2, ESP_GATTS_ADD_CHAR_EVT st2 h1 sh 0x01, gatts_if),
      (e3, ESP_GATTS_ADD_CHAR_EVT st3 h2 sh 0x02, gatts_if),
      (e4, ESP_GATTS_ADD_CHAR_EVT st4 h3 sh 0x03, gatts_if),
      (e5, ESP_GATTS_ADD_CHAR_EVT st5 h4 sh 0x04, gatts_if),
      (e6, ESP_GATTS_ADD_CHAR_EVT st6 h5 sh 0x05, gatts_if),
      (e7, ESP_GATTS_ADD_CHAR_DESCR_EVT st7 h6 sh ESP_GATT_UUID_CHAR_CLIENT_CONFIG, gatts_if)] =
    [Gatts_create_service gatts_if
       \<lparr>is_primary = True, inst_id = 0x00,
        srvc_uuid = \<lparr>uuid_len = ESP_UUID_LEN_128, uuid_bytes = adv_service_uuid128\<rparr>\<rparr> 12,
     Gatts_add_char sh (mds_char_uuid 0x01) ESP_GATT_PERM_READ ESP_GATT_CHAR_PROP_BIT_READ,
     Gatts_add_char sh (mds_char_uuid 0x02) ESP_GATT_PERM_READ ESP_GATT_CHAR_PROP_BIT_READ,
     Gatts_add_char sh (mds_char_uuid 0x03) ESP_GATT_PERM_READ ESP_GATT_CHAR_PROP_BIT_READ,
     Gatts_add_char sh (mds_char_uuid 0x04) ESP_GATT_PERM_READ ESP_GATT_CHAR_PROP_BIT_READ,
     Gatts_add_char sh (mds_char_uuid 0x05) ESP_GATT_PERM_WRITE
       (ESP_GATT_CHAR_PROP_BIT_WRITE OR ESP_GATT_CHAR_PROP_BIT_NOTIFY),
     Gatts_add_char_descr sh \<lparr>uuid_len = ESP_UUID_LEN_16, uuid_bytes = [0x02, 0x29]\<rparr>
       (ESP_GATT_PERM_READ OR ESP_GATT_PERM_WRITE),
     Gatts_start_service sh]
   \<and> mds_handles (run (globals_init uri)
     [(e0, ESP_GATTS_REG_EVT st0 app_id, gatts_if),
      (e1, ESP_GATTS_CREATE_EVT st1 sh, gatts_if),
      (e2, ESP_GATTS_ADD_CHAR_EVT st2 h1 sh 0x01, gatts_if),
      (e3, ESP_GATTS_ADD_CHAR_EVT st3 h2 sh 0x02, gatts_if),
      (e4, ESP_GATTS_ADD_CHAR_EVT st4 h3 sh 0x03, gatts_if),
      (e5, ESP_GATTS_ADD_CHAR_EVT st5 h4 sh 0x04, gatts_if),
      (e6, ESP_GATTS_ADD_CHAR_EVT st6 h5 sh 0x05, gatts_if),
      (e7, ESP_GATTS_ADD_CHAR_DESCR_EVT st7 h6 sh ESP_GATT_UUID_CHAR_CLIENT_CONFIG, gatts_if)]) =
     \<lparr>supported_features_handle = h1, device_id_handle = h2, data_uri_handle = h3,
      auth_handle = h4, data_export_handle = h5, data_export_cccd_handle = h6\<rparr>"
  by (simp add: Let_def add_next_attribute_def record_char_handle_def MDS_NUM_HANDLES_def
       MDS_NUM_CHARACTERISTICS_def MDS_NUM_DESCRIPTORS_def ESP_GATT_UUID_CHAR_CLIENT_CONFIG_def
       globals_init_def mds_handles_init_def)

subsection \<open>Pacing of the chunk sends\<close>

text \<open>
  Claim C1, as the code has it. The claim concludes that no two chunk notifications are
  submitted without a confirmation, a drain to idle or a congestion-clear event between
  them. The handler keeps no record of a chunk in flight. A subscriber that writes mode 1
  twice gets two chunks, numbered 0 and 1, with no event between the two writes.
\<close>

theorem repeated_mode_write_sends_again:
  "\<not> single_in_flight False g_subscribed
       [(env_accept, ESP_GATTS_WRITE_EVT 7 2 50 [0x01], 3),
        (env_accept, ESP_GATTS_WRITE_EVT 7 3 50 [0x01], 3)]
   \<and> run_actions g_subscribed
       [(env_accept, ESP_GATTS_WRITE_EVT 7 2 50 [0x01], 3),
        (env_accept, ESP_GATTS_WRITE_EVT 7 3 50 [0x01], 3)] =
      [Gatts_send_response 3 7 2 ESP_GATT_OK None,
       Gatts_send_indicate 3 7 50 3 [0x00, 0xAA, 0xBB] False,
       Gatts_send_response 3 7 3 ESP_GATT_OK None,
       Gatts_send_indicate 3 7 50 3 [0x01, 0xAA, 0xBB] False]"
  by (simp add: g_subscribed_handles g_built_handles g_subscribed_state
        write_data_export_def send_chunk_notification_def max_chunk_size_def env_accept_def
        notifications_def payload_header_def ESP_OK_def Let_def)

text \<open>
  Claim C1, amended. A chunk notification is submitted only while handling one of the three
  triggers: an event that is no trigger submits none, and its outcome does not depend on
  what the packetizer, the allocator or the stack would answer, which is to say that
  \<^verbatim>\<open>send_chunk_notification\<close> is not run. Every event submits at most one. So in every
  sequence of events the notifications submitted are at most as many as the triggers.
\<close>

theorem chunk_sends_only_on_triggers:
  "length (notifications (snd (gatts_profile_event_handler e ev gatts_if g))) \<le> 1
   \<and> (\<not> send_trigger ev g \<longrightarrow>
        notifications (snd (gatts_profile_event_handler e ev gatts_if g)) = []
        \<and> gatts_profile_event_handler e ev gatts_if g = gatts_profile_event_handler e' ev gatts_if g)
   \<and> length (notifications (run_actions g ins)) \<le> trigger_count g ins"
  using handler_trigger [of e ev gatts_if g] handler_env_irrelevant [of ev g e gatts_if e']
    run_notifications_le_triggers [of g ins]
  by blast

theorem chunk_sends_only_on_triggers_witness:
  "\<not> send_trigger (ESP_GATTS_WRITE_EVT 7 2 50 [0x00]) g_streaming
   \<and> notifications (snd (gatts_profile_event_handler env_accept
        (ESP_GATTS_WRITE_EVT 7 2 50 [0x00]) 3 g_streaming)) = []
   \<and> gatts_profile_event_handler env_accept (ESP_GATTS_WRITE_EVT 7 2 50 [0x00]) 3 g_streaming =
       gatts_profile_event_handler env_drained (ESP_GATTS_WRITE_EVT 7 2 50 [0x00]) 3 g_streaming
   \<and> send_trigger ESP_GATTS_CONF_EVT g_streaming
   \<and> length (notifications (snd (gatts_profile_event_handler env_accept ESP_GATTS_CONF_EVT 3
         g_streaming))) = 1
   \<and> trigger_count g_streaming
        [(env_accept, ESP_GATTS_CONF_EVT, 3), (env_accept, ESP_GATTS_MTU_EVT 185, 3),
         (env_accept, ESP_GATTS_CONGEST_EVT False, 3)] = 2
   \<and> length (notifications (run_actions g_streaming
        [(env_accept, ESP_GATTS_CONF_EVT, 3), (env_accept, ESP_GATTS_MTU_EVT 185, 3),
         (env_accept, ESP_GATTS_CONGEST_EVT False, 3)])) = 2"
  using chunk_sends_only_on_triggers
          [where e = env_accept and ev = "ESP_GATTS_WRITE_EVT 7 2 50 [0x00]" and gatts_if = 3
             and g = g_streaming and e' = env_drained
             and ins = "[(env_accept, ESP_GATTS_CONF_EVT, 3), (env_accept, ESP_GATTS_MTU_EVT 185, 3),
                         (env_accept, ESP_GATTS_CONGEST_EVT False, 3)]"]
  by (simp add: g_streaming_handles g_built_handles g_streaming_state write_data_export_def
        send_chunk_notification_def max_chunk_size_def env_accept_def
        notifications_def ESP_OK_def Let_def)

subsection \<open>The sequence counter\<close>

text \<open>
  Claim C2. For every event, in every state: if no notification is submitted, the sequence
  counter keeps its value and the packetizer is not told to abort. If one is submitted and
  the stack returns \<open>ESP_OK\<close>, its header carried the low five bits of the counter, the
  counter becomes its successor modulo 32, and there is no abort. If one is submitted and
  the stack returns an error, the counter keeps its value and the packetizer is told to
  abort exactly once. Over every sequence of events, from every state, each accepted header
  is the one before plus one, modulo 32. The examples include the step from 31 to 0.
\<close>

theorem sequence_counter_follows_submissions:
  "(notifications (snd (gatts_profile_event_handler e ev gatts_if g)) = [] \<longrightarrow>
      chunk_sequence (mds_state (fst (gatts_profile_event_handler e ev gatts_if g))) =
        chunk_sequence (mds_state g)
      \<and> count_list (snd (gatts_profile_event_handler e ev gatts_if g)) Packetizer_abort = 0)
   \<and> (notifications (snd (gatts_profile_event_handler e ev gatts_if g)) \<noteq> []
        \<and> send_indicate_ret e = ESP_OK \<longrightarrow>
      concat (map header_bytes (snd (gatts_profile_event_handler e ev gatts_if g))) =
        [chunk_sequence (mds_state g) AND 0x1F]
      \<and> unat (chunk_sequence (mds_state (fst (gatts_profile_event_handler e ev gatts_if g)))) =
          (unat (chunk_sequence (mds_state g)) + 1) mod 32
      \<and> count_list (snd (gatts_profile_event_handler e ev gatts_if g)) Packetizer_abort = 0)
   \<and> (notifications (snd (gatts_profile_event_handler e ev gatts_if g)) \<noteq> []
        \<and> send_indicate_ret e \<noteq> ESP_OK \<longrightarrow>
      chunk_sequence (mds_state (fst (gatts_profile_event_handler e ev gatts_if g))) =
        chunk_sequence (mds_state g)
      \<and> count_list (snd (gatts_profile_event_handler e ev gatts_if g)) Packetizer_abort = 1)
   \<and> successive_mod32 (accepted_headers g ins)"
proof -
  have "seq_step e g (fst (gatts_profile_event_handler e ev gatts_if g))
          (snd (gatts_profile_event_handler e ev gatts_if g))"
    by (rule handler_seq_step)
  moreover have "successive_mod32 (accepted_headers g ins)"
    using accepted_headers_chain [of g ins] by simp
  ultimately show ?thesis
    unfolding seq_step_def by (auto simp only: unat_succ_and31)
qed

theorem sequence_counter_follows_submissions_witness:
  "notifications (snd (gatts_profile_event_handler env_accept (ESP_GATTS_MTU_EVT 185) 3 g_streaming)) = []
   \<and> chunk_sequence (mds_state (fst (gatts_profile_event_handler env_accept (ESP_GATTS_MTU_EVT 185) 3
        g_streaming))) = 1
   \<and> snd (gatts_profile_event_handler env_accept ESP_GATTS_CONF_EVT 3 g_streaming) =
       [Gatts_send_indicate 3 7 50 3 [0x01, 0xAA, 0xBB] False]
   \<and> send_indicate_ret env_accept = ESP_OK
   \<and> chunk_sequence (mds_state (fst (gatts_profile_event_handler env_accept ESP_GATTS_CONF_EVT 3
        g_streaming))) = 2
   \<and> snd (gatts_profile_event_handler env_refuse ESP_GATTS_CONF_EVT 3 g_streaming) =
       [Gatts_send_indicate 3 7 50 3 [0x01, 0xAA, 0xBB] False,
        ESP_LOGE ''Failed to send notification: %d'', Packetizer_abort]
   \<and> send_indicate_ret env_refuse \<noteq> ESP_OK
   \<and> chunk_sequence (mds_state (fst (gatts_profile_event_handler env_refuse ESP_GATTS_CONF_EVT 3
        g_streaming))) = 1
   \<and> accepted_headers g_subscribed
        [(env_accept, ESP_GATTS_WRITE_EVT 7 2 50 [0x01], 3), (env_accept, ESP_GATTS_CONF_EVT, 3),
         (env_refuse, ESP_GATTS_CONF_EVT, 3), (env_accept, ESP_GATTS_CONF_EVT, 3)] = [0, 1, 2]
   \<and> successive_mod32 [0, 1, 2]
   \<and> snd (gatts_profile_event_handler env_accept ESP_GATTS_CONF_EVT 3
        (g_streaming\<lparr>mds_state := (mds_state g_streaming)\<lparr>chunk_sequence := 31\<rparr>\<rparr>)) =
       [Gatts_send_indicate 3 7 50 3 [0x1F, 0xAA, 0xBB] False]
   \<and> chunk_sequence (mds_state (fst (gatts_profile_event_handler env_accept ESP_GATTS_CONF_EVT 3
        (g_streaming\<lparr>mds_state := (mds_state g_streaming)\<lparr>chunk_sequence := 31\<rparr>\<rparr>)))) = 0"
  using sequence_counter_follows_submissions
          [where e = env_accept and ev = "ESP_GATTS_MTU_EVT 185" and gatts_if = 3 and g = g_streaming
             and ins = "[]"]
        sequence_counter_follows_submissions
          [where e = env_accept and ev = ESP_GATTS_CONF_EVT and gatts_if = 3 and g = g_streaming
             and ins = "[]"]
        sequence_counter_follows_submissions
          [where e = env_refuse and ev = ESP_GATTS_CONF_EVT and gatts_if = 3 and g = g_subscribed
             and ins = "[(env_accept, ESP_GATTS_WRITE_EVT 7 2 50 [0x01], 3),
                         (env_accept, ESP_GATTS_CONF_EVT, 3), (env_refuse, ESP_GATTS_CONF_EVT, 3),
                         (env_accept, ESP_GATTS_CONF_EVT, 3)]"]
        sequence_counter_follows_submissions
          [where e = env_accept and ev = ESP_GATTS_CONF_EVT and gatts_if = 3
             and g = "g_streaming\<lparr>mds_state := (mds_state g_streaming)\<lparr>chunk_sequence := 31\<rparr>\<rparr>"
             and ins = "[]"]
  by (simp add: g_streaming_handles g_subscribed_handles g_built_handles g_streaming_state
        g_subscribed_state write_data_export_def
        send_chunk_notification_def max_chunk_size_def env_accept_def env_refuse_def
        notifications_def payload_header_def ESP_OK_def Let_def)

subsection \<open>The frame on the wire\<close>

text \<open>
  Below an MTU of 4 the capacity wraps around, and the size asked of \<^verbatim>\<open>malloc\<close>, one more
  than the capacity, is either 0 or at least 4294967293.
\<close>

lemma small_mtu_cases:
  assumes "unat (m :: u16) < 4"
  shows "m = 0 \<or> m = 1 \<or> m = 2 \<or> m = 3"
proof -
  have "unat m = 0 \<or> unat m = 1 \<or> unat m = 2 \<or> unat m = 3"
    using assms by arith
  then show ?thesis
    by (auto simp: word_unat_eq_iff)
qed

lemma total_len_wraps:
  "unat (1 + max_chunk_size 0) = 4294967293" "unat (1 + max_chunk_size 1) = 4294967294"
  "unat (1 + max_chunk_size 2) = 4294967295" "unat (1 + max_chunk_size 3) = 0"
proof -
  have "(1 + (0 - 4) :: size_t) = 4294967293" by simp
  then show "unat (1 + max_chunk_size 0) = 4294967293"
    by (simp add: max_chunk_size_def)
  have "(1 + (1 - 4) :: size_t) = 4294967294" by simp
  then show "unat (1 + max_chunk_size 1) = 4294967294"
    by (simp add: max_chunk_size_def)
  show "unat (1 + max_chunk_size 2) = 4294967295"
    by (simp add: max_chunk_size_def unsigned_minus_1_eq_mask mask_eq_exp_minus_1)
  show "unat (1 + max_chunk_size 3) = 0"
    by (simp add: max_chunk_size_def)
qed

lemma small_mtu_not_allocated:
  assumes "allocator_bounded e" and "unat (m :: u16) < 4"
  shows "\<not> malloc_ok e (unat (1 + max_chunk_size m))"
proof
  assume "malloc_ok e (unat (1 + max_chunk_size m))"
  then have "0 < unat (1 + max_chunk_size m) \<and> unat (1 + max_chunk_size m) < 4294967293"
    using assms(1) unfolding allocator_bounded_def by blast
  moreover have "m = 0 \<or> m = 1 \<or> m = 2 \<or> m = 3"
    using assms(2) by (rule small_mtu_cases)
  ultimately show False
    by (auto simp: total_len_wraps)
qed

text \<open>
  Claim C7. Take any state reached from the initial globals, with any MTU, a packetizer
  that writes no more than the capacity it is handed, and an allocator that returns no
  buffer for a request of no bytes or of 4294967293 bytes or more. Every notification
  submitted is one header byte followed by the data; the header is the sequence counter,
  which is below 32, so its bits 5 to 7 are zero; the length passed to the stack is one
  plus the number of data bytes; and the number of data bytes plus 4 is at most the MTU,
  that is, the data is no longer than the MTU minus 4. Below an MTU of 4 the buffer is not
  allocated and nothing is submitted, as the second example shows for an MTU of 3.
\<close>

theorem chunk_frame_layout:
  assumes "packetizer_respects_capacity e"
      and "allocator_bounded e"
      and "g = run (globals_init uri) ins"
      and "Gatts_send_indicate gi c h vl v nc
             \<in> set (snd (gatts_profile_event_handler e ev gatts_if g))"
  shows "\<exists>data. v = chunk_sequence (mds_state g) # data
           \<and> unat (chunk_sequence (mds_state g)) < 32
           \<and> chunk_sequence (mds_state g) AND 0xE0 = 0
           \<and> unat vl = 1 + length data
           \<and> length data + 4 \<le> unat (mtu (mds_state g))"
proof -
  let ?s = "chunk_sequence (mds_state g)"
  let ?m = "mtu (mds_state g)"
  obtain data where
    alloc: "malloc_ok e (unat (1 + max_chunk_size ?m))" and
    chunk: "packetizer_get_chunk e (unat (max_chunk_size ?m)) = Some data" and
    v: "v = payload_header ?s 0 # data" and
    vl: "vl = ucast (1 + of_nat (length data) :: size_t)"
    using handler_notification_shape [OF assms(4)] by blast
  have m4: "4 \<le> unat ?m"
  proof (rule ccontr)
    assume "\<not> 4 \<le> unat ?m"
    then have "unat ?m < 4" by simp
    with assms(2) have "\<not> malloc_ok e (unat (1 + max_chunk_size ?m))"
      by (rule small_mtu_not_allocated)
    with alloc show False by simp
  qed
  have "unat (chunk_sequence (mds_state (globals_init uri))) < 32"
    by (simp add: globals_init_def mds_state_init_def)
  then have bound: "unat ?s < 32"
    unfolding assms(3) by (rule run_sequence_bound)
  then have hdr: "payload_header ?s 0 = ?s"
    by (simp add: payload_header_rfu0 lt32_and31)
  have "?s AND 0x1F = ?s" using bound by (rule lt32_and31)
  then have high: "?s AND 0xE0 = 0"
    using and31_high [of ?s] by simp
  have "length data \<le> unat (max_chunk_size ?m)"
    using assms(1) chunk unfolding packetizer_respects_capacity_def by blast
  then have len: "length data \<le> unat ?m - 4"
    using m4 by (simp add: unat_max_chunk_size)
  have "unat ?m < 65536"
    using unsigned_less [of ?m, where ?'a = nat] by simp
  with len m4 have "length data + 4 \<le> 65535" by simp
  then have "unat vl = 1 + length data"
    unfolding vl by (rule unat_value_len)
  moreover have "length data + 4 \<le> unat ?m"
    using len m4 by simp
  ultimately show ?thesis
    using v hdr bound high by simp
qed

theorem chunk_frame_layout_witness:
  "packetizer_respects_capacity env_bounded \<and> allocator_bounded env_bounded
   \<and> g_streaming = run (globals_init [])
        (build_inputs ESP_GATT_OK
         @ [(env_accept, ESP_GATTS_WRITE_EVT 7 1 51 [0x01, 0x00], 3),
            (env_accept, ESP_GATTS_WRITE_EVT 7 2 50 [0x01], 3)])
   \<and> unat (mtu (mds_state g_streaming)) = 23
   \<and> Gatts_send_indicate 3 7 50 3 [0x01, 0xAA, 0xBB] False
        \<in> set (snd (gatts_profile_event_handler env_bounded ESP_GATTS_CONF_EVT 3 g_streaming))
   \<and> chunk_sequence (mds_state g_streaming) = 1
   \<and> (\<exists>data. [0x01, 0xAA, 0xBB] = chunk_sequence (mds_state g_streaming) # data
         \<and> unat (3 :: u16) = 1 + length data
         \<and> length data + 4 \<le> unat (mtu (mds_state g_streaming)))
   \<and> mtu (mds_state (run g_streaming [(env_bounded, ESP_GATTS_MTU_EVT 3, 3)])) = 3
   \<and> snd (gatts_profile_event_handler env_bounded ESP_GATTS_CONF_EVT 3
            (run g_streaming [(env_bounded, ESP_GATTS_MTU_EVT 3, 3)])) =
       [ESP_LOGE ''Failed to allocate notification buffer'']"
proof -
  have cap: "packetizer_respects_capacity env_bounded"
    by (simp add: packetizer_respects_capacity_def env_bounded_def)
  have alloc: "allocator_bounded env_bounded"
    by (simp add: allocator_bounded_def env_bounded_def)
  have reach: "g_streaming = run (globals_init [])
        (build_inputs ESP_GATT_OK
         @ [(env_accept, ESP_GATTS_WRITE_EVT 7 1 51 [0x01, 0x00], 3),
            (env_accept, ESP_GATTS_WRITE_EVT 7 2 50 [0x01], 3)])"
    by (simp add: g_streaming_def g_subscribed_def g_built_def run_append)
  have sent: "Gatts_send_indicate 3 7 50 3 [0x01, 0xAA, 0xBB] False
        \<in> set (snd (gatts_profile_event_handler env_bounded ESP_GATTS_CONF_EVT 3 g_streaming))"
    by (simp add: g_streaming_handles g_built_handles g_streaming_state
        send_chunk_notification_def max_chunk_size_def env_bounded_def payload_header_def
        ESP_OK_def Let_def)
  have small: "snd (gatts_profile_event_handler env_bounded ESP_GATTS_CONF_EVT 3
            (run g_streaming [(env_bounded, ESP_GATTS_MTU_EVT 3, 3)])) =
       [ESP_LOGE ''Failed to allocate notification buffer'']"
    by (simp add: g_streaming_state send_chunk_notification_def total_len_wraps
        env_bounded_def Let_def)
  from chunk_frame_layout [OF cap alloc reach sent] cap alloc reach sent small
  show ?thesis
    by (simp add: g_streaming_state)
qed

end
